theory Spec2Isabelle
  imports Main "HOL-Library.Word"
begin

unbundle bit_operations_syntax

section \<open>Bytes, Python slices and library calls\<close>

text \<open>
  A shallow embedding of the SSO token validator (\<^verbatim>\<open>utils/shopify_sso.py\<close>), the callback's
  field normalisation (\<^verbatim>\<open>app/routes/auth/shopify_callback.py\<close>) and the session helpers
  (\<^verbatim>\<open>utils/auth.py\<close>). Python \<^verbatim>\<open>bytes\<close> are lists of 8-bit words; a Python \<^verbatim>\<open>str\<close> is a
  \<open>string\<close>, read as its UTF-8 bytes.
\<close>

type_synonym byte = "8 word"
type_synonym bytes = "byte list"

text \<open>\<^verbatim>\<open>xs[-n:]\<close> and \<^verbatim>\<open>xs[:-n]\<close> for \<open>n > 0\<close>: when \<open>xs\<close> is shorter than \<open>n\<close> the first is all of
  \<open>xs\<close> and the second is empty, which is what truncating subtraction on \<open>nat\<close> gives.\<close>

definition py_last :: "nat \<Rightarrow> 'a list \<Rightarrow> 'a list" where
  "py_last n xs = drop (length xs - n) xs"

definition py_but_last :: "nat \<Rightarrow> 'a list \<Rightarrow> 'a list" where
  "py_but_last n xs = take (length xs - n) xs"

text \<open>\<^verbatim>\<open>str.encode()\<close>: the string is already held as its UTF-8 bytes.\<close>

definition str_encode :: "string \<Rightarrow> bytes" where
  "str_encode s = map (\<lambda>c. of_nat (of_char c)) s"

text \<open>The library calls the validator makes, in the order it makes them.\<close>

datatype lib_call =
    CallB64Decode | CallSha256 | CallHmac | CallAesCbcDecrypt | CallPkcs7Unpad
  | CallJsonLoads | CallFromIsoformat

subsection \<open>\<^verbatim>\<open>base64.urlsafe_b64decode\<close>\<close>

text \<open>
  The standard library's decoder, as the validator calls it (non-strict mode): the
  URL-safe characters \<^verbatim>\<open>-\<close> and \<^verbatim>\<open>_\<close> are translated to \<^verbatim>\<open>+\<close> and \<^verbatim>\<open>/\<close>; characters outside the
  alphabet are skipped; a complete pad sequence ends the input; input that ends inside a
  group of four raises \<^verbatim>\<open>binascii.Error\<close> (\<open>None\<close> here), so text whose \<^verbatim>\<open>=\<close> padding has
  been stripped is refused unless its length is a multiple of four. A \<^verbatim>\<open>str\<close> with a
  non-ASCII character raises \<^verbatim>\<open>ValueError\<close>.
\<close>

definition urlsafe_translate :: "char \<Rightarrow> char" where
  "urlsafe_translate c = (if c = CHR ''-'' then CHR ''+'' else if c = CHR ''_'' then CHR ''/'' else c)"

definition b64_value :: "char \<Rightarrow> nat option" where
  "b64_value c =
     (let n = (of_char c :: nat) in
      if 65 \<le> n \<and> n \<le> 90 then Some (n - 65)
      else if 97 \<le> n \<and> n \<le> 122 then Some (n - 71)
      else if 48 \<le> n \<and> n \<le> 57 then Some (n + 4)
      else if n = 43 then Some 62
      else if n = 47 then Some 63
      else None)"

fun a2b_base64 :: "nat \<Rightarrow> nat \<Rightarrow> nat \<Rightarrow> bytes \<Rightarrow> string \<Rightarrow> bytes option" where
  "a2b_base64 quad_pos leftchar pads out [] = (if quad_pos \<noteq> 0 then None else Some out)"
| "a2b_base64 quad_pos leftchar pads out (c # cs) =
     (if c = CHR ''='' then
        (if 2 \<le> quad_pos \<and> 4 \<le> quad_pos + (pads + 1) then Some out
         else a2b_base64 quad_pos leftchar (if 2 \<le> quad_pos then pads + 1 else pads) out cs)
      else
        (case b64_value c of
           None \<Rightarrow> a2b_base64 quad_pos leftchar pads out cs
         | Some v \<Rightarrow>
             (if quad_pos = 0 then a2b_base64 1 v 0 out cs
              else if quad_pos = 1 then
                a2b_base64 2 (v mod 16) 0 (out @ [of_nat (leftchar * 4 + v div 16)]) cs
              else if quad_pos = 2 then
                a2b_base64 3 (v mod 4) 0 (out @ [of_nat (leftchar * 16 + v div 4)]) cs
              else a2b_base64 0 0 0 (out @ [of_nat (leftchar * 64 + v)]) cs)))"

definition urlsafe_b64decode :: "string \<Rightarrow> bytes option" where
  "urlsafe_b64decode s =
     (if \<exists>c \<in> set s. 128 \<le> (of_char c :: nat) then None
      else a2b_base64 0 0 0 [] (map urlsafe_translate s))"

subsection \<open>The cryptographic and parsing libraries\<close>

text \<open>
  SHA-256, HMAC-SHA256, the AES block decryption, the JSON parser and the ISO-8601 parser
  are library code outside the repository. They are parameters of the model: every
  theorem holds for whatever functions are supplied, under the hypotheses it states.
\<close>

datatype json =
    JNull | JBool bool | JInt int | JFloat int int | JStr string
  | JList "json list" | JObj "(string \<times> json) list"

text \<open>A \<^verbatim>\<open>datetime\<close>: the wall-clock fields as microseconds on the proleptic calendar, and the
  UTC offset in microseconds when the value is timezone-aware.\<close>

record datetime =
  wall :: int
  tzinfo :: "int option"

record env =
  sha256 :: "bytes \<Rightarrow> bytes"
  hmac_sha256 :: "bytes \<Rightarrow> bytes \<Rightarrow> bytes"
  aes_cbc_raw :: "bytes \<Rightarrow> bytes \<Rightarrow> bytes \<Rightarrow> bytes"
  json_loads :: "bytes \<Rightarrow> json option"
  fromisoformat :: "string \<Rightarrow> datetime option"

text \<open>The exceptions the model tells apart.\<close>

datatype py_exn = KeyError | TypeError | ValueError | AttributeError

text \<open>
  Lines 60 to 64. \<^verbatim>\<open>Cipher(algorithms.AES(key), modes.CBC(iv))\<close> raises \<^verbatim>\<open>ValueError\<close> unless the
  key has an AES length and the IV is one block. \<^verbatim>\<open>decryptor.update(ciphertext)\<close> then
  decrypts the data, and \<^verbatim>\<open>decryptor.final\<close> is looked up: the cipher context of the
  \<^verbatim>\<open>cryptography\<close> package has the methods \<^verbatim>\<open>update\<close>, \<^verbatim>\<open>update_into\<close> and \<^verbatim>\<open>finalize\<close> and no
  attribute \<^verbatim>\<open>final\<close>, so the lookup raises \<^verbatim>\<open>AttributeError\<close> and the decrypted blocks are
  lost. The statement of line 64 never completes.
\<close>

definition cbc_decrypt :: "env \<Rightarrow> bytes \<Rightarrow> bytes \<Rightarrow> bytes \<Rightarrow> py_exn + bytes" where
  "cbc_decrypt E key iv ciphertext =
     (if length key \<notin> {16, 24, 32} then Inl ValueError
      else if length iv \<noteq> 16 then Inl ValueError
      else let updated = aes_cbc_raw E key iv ciphertext
           in Inl AttributeError)"

text \<open>
  Lines 67 and 68. \<^verbatim>\<open>unpadder.update(plaintext) + unpadder.final()\<close>: the padding context has
  \<^verbatim>\<open>update\<close> and \<^verbatim>\<open>finalize\<close> and no attribute \<^verbatim>\<open>final\<close> either, so this statement would raise
  \<^verbatim>\<open>AttributeError\<close> too, after \<^verbatim>\<open>update\<close> has buffered the data.
\<close>

definition pkcs7_unpad :: "bytes \<Rightarrow> py_exn + bytes" where
  "pkcs7_unpad padded = Inl AttributeError"

subsection \<open>Python values\<close>

definition truthy :: "json \<Rightarrow> bool" where
  "truthy v =
     (case v of JNull \<Rightarrow> False | JBool b \<Rightarrow> b | JInt n \<Rightarrow> n \<noteq> 0 | JFloat m e \<Rightarrow> m \<noteq> 0
      | JStr s \<Rightarrow> s \<noteq> [] | JList xs \<Rightarrow> xs \<noteq> [] | JObj kv \<Rightarrow> kv \<noteq> [])"

text \<open>\<^verbatim>\<open>d.get(k)\<close>: \<^verbatim>\<open>None\<close> for a missing key. \<^verbatim>\<open>a or b\<close>: \<open>a\<close> when it is truthy, else \<open>b\<close>.\<close>

definition dict_get :: "(string \<times> json) list \<Rightarrow> string \<Rightarrow> json" where
  "dict_get kv k = (case map_of kv k of None \<Rightarrow> JNull | Some v \<Rightarrow> v)"

definition py_or :: "json \<Rightarrow> json \<Rightarrow> json" where
  "py_or a b = (if truthy a then a else b)"

text \<open>\<^verbatim>\<open>s.replace('Z', '+00:00')\<close>.\<close>

definition replace_Z :: "string \<Rightarrow> string" where
  "replace_Z s = concat (map (\<lambda>c. if c = CHR ''Z'' then ''+00:00'' else [c]) s)"

text \<open>\<^verbatim>\<open>a - b\<close> on datetimes, in microseconds: naive values subtract their fields, aware values
  subtract as instants (the fields again when both carry the same offset), and mixing the
  two raises \<^verbatim>\<open>TypeError\<close>.\<close>

definition dt_sub :: "datetime \<Rightarrow> datetime \<Rightarrow> int option" where
  "dt_sub a b =
     (case (tzinfo a, tzinfo b) of
        (None, None) \<Rightarrow> Some (wall a - wall b)
      | (Some oa, Some ob) \<Rightarrow> Some ((wall a - oa) - (wall b - ob))
      | _ \<Rightarrow> None)"

section \<open>The token validator\<close>

text \<open>
  \<^verbatim>\<open>validate_shopify_sso_token\<close> returns \<^verbatim>\<open>None\<close> at three \<^verbatim>\<open>return None\<close> statements and from
  its \<^verbatim>\<open>except Exception\<close> handler. The model keeps the place: \<open>SignatureMismatch\<close> is the
  return after \<^verbatim>\<open>compare_digest\<close>, \<open>NoCreatedAt\<close> the return after the timestamp lookup,
  \<open>TooOld\<close> the return after the age comparison, and the others name the statement whose
  exception the handler caught. \<open>CipherError\<close> is the handler reached from lines 60 to 64;
  since line 64 always raises, every token whose signature verifies ends there, and the
  places after it are kept as the source has them although no token reaches them.
\<close>

datatype reject =
    B64Error | SignatureMismatch | CipherError | PaddingError | JsonError
  | PayloadTypeError | NoCreatedAt | TimestampError | TooOld

datatype outcome = Raised | Rejected reject | Accepted json

text \<open>What the Python caller sees: every rejection is \<^verbatim>\<open>None\<close>.\<close>

definition py_value :: "outcome \<Rightarrow> json option" where
  "py_value r = (case r of Accepted d \<Rightarrow> Some d | _ \<Rightarrow> None)"

definition TOKEN_EXPIRY_MINUTES :: int where
  "TOKEN_EXPIRY_MINUTES = 15"

text \<open>Lines 39 to 41: one digest of the secret, cut into the two keys.\<close>

definition derive_keys :: "env \<Rightarrow> string \<Rightarrow> bytes \<times> bytes" where
  "derive_keys E secret =
     (let key_material = sha256 E (str_encode secret);
          encryption_key = take 16 key_material;
          signature_key = take 16 (drop 16 key_material)
      in (encryption_key, signature_key))"

text \<open>Lines 36 to 70: decode, derive the keys, check the signature, decrypt, unpad, parse.
  The log records \<open>CallAesCbcDecrypt\<close> once the cipher is being built, whether it raises
  in its constructor or after \<^verbatim>\<open>update\<close>.\<close>

definition open_token :: "env \<Rightarrow> string \<Rightarrow> string \<Rightarrow> lib_call list \<times> (reject + json)" where
  "open_token E secret token =
     (case urlsafe_b64decode token of
        None \<Rightarrow> ([CallB64Decode], Inl B64Error)
      | Some token_data \<Rightarrow>
          (case derive_keys E secret of
             (encryption_key, signature_key) \<Rightarrow>
               let signature = py_last 32 token_data;
                   encrypted_data = py_but_last 32 token_data;
                   expected_signature = hmac_sha256 E signature_key encrypted_data
               in if signature \<noteq> expected_signature
                  then ([CallB64Decode, CallSha256, CallHmac], Inl SignatureMismatch)
                  else
                    let iv = take 16 encrypted_data;
                        ciphertext = drop 16 encrypted_data
                    in (case cbc_decrypt E encryption_key iv ciphertext of
                          Inl e \<Rightarrow>
                            ([CallB64Decode, CallSha256, CallHmac, CallAesCbcDecrypt],
                             Inl CipherError)
                        | Inr padded \<Rightarrow>
                            (case pkcs7_unpad padded of
                               Inl e \<Rightarrow>
                                 ([CallB64Decode, CallSha256, CallHmac, CallAesCbcDecrypt,
                                   CallPkcs7Unpad], Inl PaddingError)
                             | Inr plaintext \<Rightarrow>
                                 (case json_loads E plaintext of
                                    None \<Rightarrow>
                                      ([CallB64Decode, CallSha256, CallHmac, CallAesCbcDecrypt,
                                        CallPkcs7Unpad, CallJsonLoads], Inl JsonError)
                                  | Some customer_data \<Rightarrow>
                                      ([CallB64Decode, CallSha256, CallHmac, CallAesCbcDecrypt,
                                        CallPkcs7Unpad, CallJsonLoads], Inr customer_data))))))"

text \<open>
  Lines 73 to 84: the timestamp lookup and the age check, which the validator would run
  on a parsed payload. \<open>now\<close> is \<^verbatim>\<open>datetime.utcnow()\<close>, the
  UTC wall clock in microseconds. \<^verbatim>\<open>total_seconds() / 60 > 15\<close> is a comparison of floats; a
  difference of \<open>900000000\<close> microseconds gives exactly \<open>15.0\<close> and the two divisions are
  monotone and separate \<open>900000001\<close> from it, so the comparison is that of the
  microsecond counts.
\<close>

definition check_created_at :: "env \<Rightarrow> int \<Rightarrow> json \<Rightarrow> lib_call list \<times> (reject + json)" where
  "check_created_at E now customer_data =
     (case customer_data of
        JObj kv \<Rightarrow>
          let created_at_str = py_or (dict_get kv ''createdAt'') (dict_get kv ''created_at'')
          in if \<not> truthy created_at_str then ([], Inl NoCreatedAt)
             else
               (case created_at_str of
                  JStr s \<Rightarrow>
                    (case fromisoformat E (replace_Z s) of
                       None \<Rightarrow> ([CallFromIsoformat], Inl TimestampError)
                     | Some created_at \<Rightarrow>
                         (case dt_sub \<lparr>wall = now, tzinfo = tzinfo created_at\<rparr> created_at of
                            None \<Rightarrow> ([CallFromIsoformat], Inl TimestampError)
                          | Some diff \<Rightarrow>
                              if diff > TOKEN_EXPIRY_MINUTES * 60 * 1000000
                              then ([CallFromIsoformat], Inl TooOld)
                              else ([CallFromIsoformat], Inr customer_data)))
                | _ \<Rightarrow> ([], Inl TimestampError))
      | _ \<Rightarrow> ([], Inl PayloadTypeError))"

definition validate_shopify_sso_token ::
    "env \<Rightarrow> string \<Rightarrow> int \<Rightarrow> string \<Rightarrow> lib_call list \<times> outcome" where
  "validate_shopify_sso_token E secret now token =
     (if secret = [] then ([], Raised)
      else
        (case open_token E secret token of
           (calls, Inl r) \<Rightarrow> (calls, Rejected r)
         | (calls, Inr customer_data) \<Rightarrow>
             (case check_created_at E now customer_data of
                (calls', Inl r) \<Rightarrow> (calls @ calls', Rejected r)
              | (calls', Inr d) \<Rightarrow> (calls @ calls', Accepted d))))"

text \<open>The error kinds of the specification, and the kind it gives to each place where the
  code rejects (sections 4.2 and 7 of the specification).\<close>

datatype token_error = Malformed | BadSignature | InvalidPayload | Expired

definition spec_kind :: "reject \<Rightarrow> token_error" where
  "spec_kind r =
     (case r of
        B64Error \<Rightarrow> Malformed | SignatureMismatch \<Rightarrow> BadSignature
      | CipherError \<Rightarrow> Malformed | PaddingError \<Rightarrow> Malformed
      | JsonError \<Rightarrow> InvalidPayload | PayloadTypeError \<Rightarrow> InvalidPayload
      | NoCreatedAt \<Rightarrow> InvalidPayload | TimestampError \<Rightarrow> InvalidPayload
      | TooOld \<Rightarrow> Expired)"

text \<open>Flipping bit \<open>i\<close> of byte \<open>j\<close>.\<close>

definition flip_bit_at :: "nat \<Rightarrow> nat \<Rightarrow> bytes \<Rightarrow> bytes" where
  "flip_bit_at j i bs = bs[j := (bs ! j) XOR (push_bit i 1)]"

section \<open>The callback's field normalisation\<close>

text \<open>Lines 40 to 45 of the callback: the arguments it passes to \<^verbatim>\<open>create_or_update_user\<close>,
  in the order \<^verbatim>\<open>email\<close>, \<^verbatim>\<open>first_name\<close>, \<^verbatim>\<open>last_name\<close>, \<^verbatim>\<open>shopify_customer_id\<close>.\<close>

definition callback_user_args :: "json \<Rightarrow> py_exn + (json \<times> json \<times> json \<times> json)" where
  "callback_user_args customer_data =
     (case customer_data of
        JObj kv \<Rightarrow>
          (case map_of kv ''email'' of
             None \<Rightarrow> Inl KeyError
           | Some email \<Rightarrow>
               Inr (email,
                    py_or (dict_get kv ''firstName'') (dict_get kv ''first_name''),
                    py_or (dict_get kv ''lastName'') (dict_get kv ''last_name''),
                    py_or (dict_get kv ''shopifyCustomerId'') (dict_get kv ''shopify_customer_id'')))
      | _ \<Rightarrow> Inl TypeError)"

datatype callback_step =
    RedirectLogin string | RaisedValueError | CreateOrUpdateUser json json json json

text \<open>\<^verbatim>\<open>shopify_callback\<close> up to its call of \<^verbatim>\<open>create_or_update_user\<close> (lines 28 to 45, and the
  handler of lines 67 to 69 for an exception raised while the arguments are read).\<close>

definition shopify_callback :: "env \<Rightarrow> string \<Rightarrow> int \<Rightarrow> string \<Rightarrow> callback_step" where
  "shopify_callback E secret now token =
     (if token = [] then RedirectLogin ''/login?error=missing_token''
      else
        (case snd (validate_shopify_sso_token E secret now token) of
           Raised \<Rightarrow> RaisedValueError
         | Rejected r \<Rightarrow> RedirectLogin ''/login?error=invalid_token''
         | Accepted customer_data \<Rightarrow>
             if \<not> truthy customer_data then RedirectLogin ''/login?error=invalid_token''
             else
               (case callback_user_args customer_data of
                  Inl e \<Rightarrow> RedirectLogin ''/login?error=authentication_failed''
                | Inr (email, first_name, last_name, shopify_customer_id) \<Rightarrow>
                    CreateOrUpdateUser email first_name last_name shopify_customer_id)))"

section \<open>The session helpers\<close>

text \<open>
  Modelled from the spec: the session store. The Supabase client is not in the
  repository; section 3 and 4.4 of the specification give its contract (persist a record,
  fetch by token among the records with \<open>expires_at > now\<close>, delete by token). The store is
  a table of session rows and a table of users; a store that is not \<open>up\<close> raises on every
  call (\<open>None\<close>). A fetched session row carries the joined user row, or \<^verbatim>\<open>null\<close>.
\<close>

record session_row =
  s_token :: string
  s_user_id :: string
  s_expires_at :: int
  s_created_at :: int

record db =
  up :: bool
  sessions :: "session_row list"
  users :: "(string \<times> json) list"

definition select_sessions :: "db \<Rightarrow> string \<Rightarrow> int \<Rightarrow> (session_row \<times> json) list option" where
  "select_sessions d tok now =
     (if \<not> up d then None
      else Some (map (\<lambda>r. (r, dict_get (users d) (s_user_id r)))
                  (filter (\<lambda>r. s_token r = tok \<and> now < s_expires_at r) (sessions d))))"

definition select_users :: "db \<Rightarrow> string \<Rightarrow> json list option" where
  "select_users d uid =
     (if \<not> up d then None else Some (map snd (filter (\<lambda>u. fst u = uid) (users d))))"

definition delete_sessions :: "db \<Rightarrow> string \<Rightarrow> db option" where
  "delete_sessions d tok =
     (if \<not> up d then None
      else Some (d\<lparr>sessions := filter (\<lambda>r. s_token r \<noteq> tok) (sessions d)\<rparr>))"

definition insert_session :: "db \<Rightarrow> session_row \<Rightarrow> db option" where
  "insert_session d row = (if \<not> up d then None else Some (d\<lparr>sessions := sessions d @ [row]\<rparr>))"

datatype store_call = CallSelectSessions | CallSelectUsers

text \<open>\<^verbatim>\<open>get_user_from_session\<close> returns \<^verbatim>\<open>None\<close> at two \<^verbatim>\<open>return None\<close> statements, from the
  fallback lookup and from its \<^verbatim>\<open>except Exception\<close> handler; the model keeps the place.\<close>

datatype auth_none = EmptyToken | NoSession | NoUser | StoreException

datatype auth_outcome = AuthNone auth_none | AuthUser json

definition auth_py_value :: "auth_outcome \<Rightarrow> json option" where
  "auth_py_value r = (case r of AuthUser u \<Rightarrow> Some u | AuthNone _ \<Rightarrow> None)"

definition get_user_from_session :: "db \<Rightarrow> int \<Rightarrow> string \<Rightarrow> store_call list \<times> auth_outcome" where
  "get_user_from_session d now session_token =
     (if session_token = [] then ([], AuthNone EmptyToken)
      else
        (case select_sessions d session_token now of
           None \<Rightarrow> ([CallSelectSessions], AuthNone StoreException)
         | Some [] \<Rightarrow> ([CallSelectSessions], AuthNone NoSession)
         | Some ((session, joined) # _) \<Rightarrow>
             (case joined of
                JObj u \<Rightarrow> ([CallSelectSessions], AuthUser (JObj u))
              | JList (u # _) \<Rightarrow> ([CallSelectSessions], AuthUser u)
              | _ \<Rightarrow>
                  (case select_users d (s_user_id session) of
                     None \<Rightarrow> ([CallSelectSessions, CallSelectUsers], AuthNone StoreException)
                   | Some [] \<Rightarrow> ([CallSelectSessions, CallSelectUsers], AuthNone NoUser)
                   | Some (u # _) \<Rightarrow> ([CallSelectSessions, CallSelectUsers], AuthUser u)))))"

text \<open>The error kinds the specification gives to the places where the lookup fails.\<close>

datatype auth_error = Missing | InvalidOrExpired | StoreUnavailable

definition spec_auth_kind :: "auth_none \<Rightarrow> auth_error" where
  "spec_auth_kind r =
     (case r of EmptyToken \<Rightarrow> Missing | NoSession \<Rightarrow> InvalidOrExpired
      | NoUser \<Rightarrow> InvalidOrExpired | StoreException \<Rightarrow> StoreUnavailable)"

text \<open>\<^verbatim>\<open>delete_session\<close>: the returned flag and the store after the call.\<close>

definition delete_session :: "db \<Rightarrow> string \<Rightarrow> bool \<times> db" where
  "delete_session d session_token =
     (case delete_sessions d session_token of
        Some d' \<Rightarrow> (True, d')
      | None \<Rightarrow> (False, d))"

text \<open>\<^verbatim>\<open>create_user_session\<close>: \<open>rand\<close> is the value of \<^verbatim>\<open>secrets.token_urlsafe(32)\<close>; an exception of
  the store is not caught (\<open>None\<close>).\<close>

definition create_user_session :: "db \<Rightarrow> int \<Rightarrow> string \<Rightarrow> string \<Rightarrow> (string \<times> db) option" where
  "create_user_session d now rand user_id =
     (let session_token = rand;
          expires_at = now + 7 * 24 * 60 * 60 * 1000000;
          session_data = \<lparr>s_token = session_token, s_user_id = user_id,
                          s_expires_at = expires_at, s_created_at = now\<rparr>
      in case insert_session d session_data of
           None \<Rightarrow> None
         | Some d' \<Rightarrow> Some (session_token, d'))"

section \<open>The encoder\<close>

text \<open>
  Modelled from the spec: the encoder. \<^verbatim>\<open>generate_shopify_redirect_token\<close> of
  \<^verbatim>\<open>utils/shopify_redirect.py\<close> is imported by the example application but is not in the
  repository; section 4.3 of the specification describes it: serialise the assertion, take
  a random 16-byte IV, pad with PKCS#7 to 128-bit blocks, encrypt with AES-CBC, compute
  HMAC-SHA256 over \<open>IV || ciphertext\<close>, concatenate \<open>IV || ciphertext || signature\<close> and
  base64url-encode with no padding characters. The serialiser and the block encryption
  are parameters; the IV is an argument.
\<close>

record enc_lib =
  json_dumps :: "json \<Rightarrow> bytes"
  aes_cbc_encrypt_raw :: "bytes \<Rightarrow> bytes \<Rightarrow> bytes \<Rightarrow> bytes"

definition pkcs7_pad :: "bytes \<Rightarrow> bytes" where
  "pkcs7_pad p = (let n = 16 - length p mod 16 in p @ replicate n (of_nat n))"

definition url_char :: "nat \<Rightarrow> char" where
  "url_char n =
     (if n < 26 then char_of (n + 65)
      else if n < 52 then char_of (n + 71)
      else if n < 62 then char_of (n - 4)
      else if n = 62 then CHR ''-''
      else CHR ''_'')"

fun b64url_nopad :: "bytes \<Rightarrow> string" where
  "b64url_nopad (a # b # c # rest) =
     [url_char (unat a div 4), url_char ((unat a mod 4) * 16 + unat b div 16),
      url_char ((unat b mod 16) * 4 + unat c div 64), url_char (unat c mod 64)]
     @ b64url_nopad rest"
| "b64url_nopad [a, b] =
     [url_char (unat a div 4), url_char ((unat a mod 4) * 16 + unat b div 16),
      url_char ((unat b mod 16) * 4)]"
| "b64url_nopad [a] = [url_char (unat a div 4), url_char ((unat a mod 4) * 16)]"
| "b64url_nopad [] = []"

definition encode :: "env \<Rightarrow> enc_lib \<Rightarrow> string \<Rightarrow> bytes \<Rightarrow> json \<Rightarrow> string" where
  "encode E L secret iv assertion =
     (case derive_keys E secret of
        (encryption_key, signature_key) \<Rightarrow>
          let payload = json_dumps L assertion;
              ciphertext = aes_cbc_encrypt_raw L encryption_key iv (pkcs7_pad payload);
              signature = hmac_sha256 E signature_key (iv @ ciphertext)
          in b64url_nopad (iv @ ciphertext @ signature))"

section \<open>A small instance of the libraries\<close>

text \<open>
  The theorems below hold for every choice of the library functions. To run the model on
  concrete tokens the closed examples use this instance: a digest \<open>0, 1, \<dots>, 31\<close>, a MAC
  that is the XOR of the key and message bytes in a 32-byte block, the identity as block
  cipher, and a serialiser that knows six payloads by their first byte. The examples
  depend on the instance only through the lengths of its results.
\<close>

definition demo_assertion :: json where
  "demo_assertion =
     JObj [(''email'', JStr ''a@b.com''), (''created_at'', JStr ''2025-01-01T12:00:00Z'')]"

definition demo_no_email :: json where
  "demo_no_email = JObj [(''created_at'', JStr ''2025-01-01T12:00:00Z'')]"

definition demo_naive :: json where
  "demo_naive =
     JObj [(''email'', JStr ''a@b.com''), (''created_at'', JStr ''2025-01-01T12:00:00'')]"

definition demo_long :: json where
  "demo_long =
     JObj [(''email'', JStr ''a@b.com''), (''first_name'', JStr ''Ada''),
           (''createdAt'', JStr ''2025-01-01T12:00:00Z'')]"

definition demo_long_camel :: json where
  "demo_long_camel =
     JObj [(''email'', JStr ''a@b.com''), (''firstName'', JStr ''Ada''),
           (''createdAt'', JStr ''2025-01-01T12:00:00Z'')]"

definition demo_no_timestamp :: json where
  "demo_no_timestamp = JObj [(''email'', JStr ''a@b.com'')]"

definition demo_loads :: "bytes \<Rightarrow> json option" where
  "demo_loads p =
     (case p of
        [] \<Rightarrow> None
      | b # _ \<Rightarrow>
          if b = 1 then Some demo_assertion
          else if b = 2 then Some demo_no_email
          else if b = 3 then Some demo_naive
          else if b = 4 then Some demo_long
          else if b = 5 then Some demo_no_timestamp
          else if b = 6 then Some demo_long_camel
          else None)"

definition demo_dumps :: "json \<Rightarrow> bytes" where
  "demo_dumps a =
     (if a = demo_assertion then [1]
      else if a = demo_no_email then [2]
      else if a = demo_naive then [3]
      else if a = demo_long then 4 # replicate 31 0
      else if a = demo_no_timestamp then [5]
      else if a = demo_long_camel then 6 # replicate 31 0
      else [])"

definition demo_fromisoformat :: "string \<Rightarrow> datetime option" where
  "demo_fromisoformat s =
     (if s = ''2025-01-01T12:00:00+00:00'' then Some \<lparr>wall = 43200000000, tzinfo = Some 0\<rparr>
      else if s = ''2025-01-01T12:00:00'' then Some \<lparr>wall = 43200000000, tzinfo = None\<rparr>
      else None)"

definition demo_env :: env where
  "demo_env =
     \<lparr>sha256 = (\<lambda>m. map of_nat [0..<32]),
      hmac_sha256 = (\<lambda>k m. replicate 31 0 @ [foldr (XOR) (k @ m) 0]),
      aes_cbc_raw = (\<lambda>k iv c. c),
      json_loads = demo_loads,
      fromisoformat = demo_fromisoformat\<rparr>"

definition demo_lib :: enc_lib where
  "demo_lib = \<lparr>json_dumps = demo_dumps, aes_cbc_encrypt_raw = (\<lambda>k iv p. p)\<rparr>"

definition demo_token :: string where
  "demo_token =
     ''AAAAAAAAAAAAAAAAAAAAAAEPDw8PDw8PDw8PDw8PDw8AAAAAAAAAAAAAAAAAAAAAAAAAAAAAAAAAAAAAAAAADg==''"

definition demo_bytes :: bytes where
  "demo_bytes = replicate 16 0 @ [1] @ replicate 15 15 @ replicate 31 0 @ [14]"

text \<open>\<open>demo_token\<close> with bit 0 of byte 63 (signature) flipped, and with bit 0 of byte 17
  (ciphertext) flipped.\<close>

definition demo_token_sig_flipped :: string where
  "demo_token_sig_flipped =
     ''AAAAAAAAAAAAAAAAAAAAAAEPDw8PDw8PDw8PDw8PDw8AAAAAAAAAAAAAAAAAAAAAAAAAAAAAAAAAAAAAAAAADw==''"

definition demo_token_ct_flipped :: string where
  "demo_token_ct_flipped =
     ''AAAAAAAAAAAAAAAAAAAAAAEODw8PDw8PDw8PDw8PDw8AAAAAAAAAAAAAAAAAAAAAAAAAAAAAAAAAAAAAAAAADg==''"



definition demo_token_naive :: string where
  "demo_token_naive =
     ''AAAAAAAAAAAAAAAAAAAAAAMPDw8PDw8PDw8PDw8PDw8AAAAAAAAAAAAAAAAAAAAAAAAAAAAAAAAAAAAAAAAADA==''"

section \<open>Properties\<close>

subsection \<open>Where the validator ends\<close>

lemma flip_ne: "i < 8 \<Longrightarrow> (w :: 8 word) XOR push_bit i 1 \<noteq> w"
proof
  assume i: "i < 8" and e: "w XOR push_bit i 1 = w"
  have "w XOR (w XOR push_bit i 1) = w XOR w" using e by simp
  then have z: "(push_bit i 1 :: 8 word) = 0" by (simp add: xor.assoc [symmetric])
  have "bit (push_bit i 1 :: 8 word) i" using i by (simp add: bit_simps)
  then show False unfolding z by simp
qed

lemma flip_len: "length (flip_bit_at j i bs) = length bs" by (simp add: flip_bit_at_def)

lemma flip_nth: "j < length bs \<Longrightarrow> i < 8 \<Longrightarrow> flip_bit_at j i bs ! j \<noteq> bs ! j"
  using flip_ne [of i "bs ! j"] by (simp add: flip_bit_at_def)

lemma flip_take: "n \<le> j \<Longrightarrow> take n (flip_bit_at j i bs) = take n bs"
  by (simp add: flip_bit_at_def)

lemma flip_drop: "n \<le> j \<Longrightarrow> j < length bs \<Longrightarrow> i < 8 \<Longrightarrow> drop n (flip_bit_at j i bs) \<noteq> drop n bs"
proof
  assume a: "n \<le> j" "j < length bs" "i < 8" and e: "drop n (flip_bit_at j i bs) = drop n bs"
  have "drop n (flip_bit_at j i bs) ! (j - n) = flip_bit_at j i bs ! j"
    using a by (simp add: flip_len)
  moreover have "drop n bs ! (j - n) = bs ! j" using a by simp
  ultimately show False using e flip_nth [OF a(2) a(3)] by simp
qed

lemma validate_mismatch:
  assumes "secret \<noteq> []" "urlsafe_b64decode token = Some td"
    and "py_last 32 td \<noteq> hmac_sha256 E (snd (derive_keys E secret)) (py_but_last 32 td)"
  shows "validate_shopify_sso_token E secret now token =
           ([CallB64Decode, CallSha256, CallHmac], Rejected SignatureMismatch)"
proof -
  obtain ek sk where dk: "derive_keys E secret = (ek, sk)" by (cases "derive_keys E secret")
  show ?thesis using assms dk
    by (simp add: validate_shopify_sso_token_def open_token_def Let_def)
qed

lemma validate_verified:
  assumes "secret \<noteq> []" "urlsafe_b64decode token = Some td"
    and "py_last 32 td = hmac_sha256 E (snd (derive_keys E secret)) (py_but_last 32 td)"
  shows "validate_shopify_sso_token E secret now token =
           ([CallB64Decode, CallSha256, CallHmac, CallAesCbcDecrypt], Rejected CipherError)"
proof -
  obtain ek sk where dk: "derive_keys E secret = (ek, sk)" by (cases "derive_keys E secret")
  have "\<exists>e. cbc_decrypt E ek (take 16 (py_but_last 32 td)) (drop 16 (py_but_last 32 td)) = Inl e"
    by (simp add: cbc_decrypt_def Let_def)
  then show ?thesis using assms dk
    by (auto simp add: validate_shopify_sso_token_def open_token_def Let_def)
qed

lemma validate_outcome:
  assumes "secret \<noteq> []"
  shows "validate_shopify_sso_token E secret now token =
           (case urlsafe_b64decode token of
              None \<Rightarrow> ([CallB64Decode], Rejected B64Error)
            | Some td \<Rightarrow>
                if py_last 32 td \<noteq> hmac_sha256 E (snd (derive_keys E secret)) (py_but_last 32 td)
                then ([CallB64Decode, CallSha256, CallHmac], Rejected SignatureMismatch)
                else ([CallB64Decode, CallSha256, CallHmac, CallAesCbcDecrypt],
                      Rejected CipherError))"
proof (cases "urlsafe_b64decode token")
  case None
  then show ?thesis using assms by (simp add: validate_shopify_sso_token_def open_token_def)
next
  case (Some td)
  then show ?thesis
    using validate_mismatch [OF assms Some, of E now] validate_verified [OF assms Some, of E now]
    by auto
qed

text \<open>No token is accepted, and the callback never gets as far as reading the fields.\<close>

lemma validate_never_accepts:
  "snd (validate_shopify_sso_token E secret now token) \<noteq> Accepted d"
proof (cases "secret = []")
  case True
  then show ?thesis by (simp add: validate_shopify_sso_token_def)
next
  case False
  then show ?thesis
    by (simp add: validate_outcome split: option.splits)
qed

lemma callback_never_creates_user:
  "shopify_callback E secret now token \<noteq> CreateOrUpdateUser email first_name last_name cid"
proof (cases "snd (validate_shopify_sso_token E secret now token)")
  case (Accepted d)
  then show ?thesis using validate_never_accepts [of E secret now token d] by simp
qed (simp_all add: shopify_callback_def)

subsection \<open>Signature before decryption\<close>

text \<open>
  Claim C1. A token whose trailing 32 bytes differ from the HMAC of the bytes before them
  is rejected at the signature comparison (the kind \<open>BadSignature\<close> of the specification),
  after the calls to the base64 decoder, the digest and the MAC only: no decryption is
  attempted. Consequently a token obtained from one whose signature verifies by flipping
  one bit of byte \<open>j\<close> is rejected there: unconditionally when the byte lies in the
  signature, and for a byte before the signature whenever the MAC of the changed bytes
  differs from the MAC of the original ones (which is what HMAC-SHA256 is used for; no
  function into 32 bytes can have it for all inputs).
\<close>

theorem tampered_token_is_rejected_before_decryption:
  assumes "secret \<noteq> []" and "urlsafe_b64decode token = Some td"
  shows "(py_last 32 td \<noteq> hmac_sha256 E (snd (derive_keys E secret)) (py_but_last 32 td) \<longrightarrow>
            validate_shopify_sso_token E secret now token =
              ([CallB64Decode, CallSha256, CallHmac], Rejected SignatureMismatch)
            \<and> spec_kind SignatureMismatch = BadSignature
            \<and> CallAesCbcDecrypt \<notin> set (fst (validate_shopify_sso_token E secret now token)))
       \<and> (\<forall>good gd j i.
            urlsafe_b64decode good = Some gd
            \<and> py_last 32 gd = hmac_sha256 E (snd (derive_keys E secret)) (py_but_last 32 gd)
            \<and> j < length gd \<and> i < 8 \<and> td = flip_bit_at j i gd
            \<and> (j < length gd - 32 \<longrightarrow>
                  hmac_sha256 E (snd (derive_keys E secret)) (py_but_last 32 td)
                  \<noteq> hmac_sha256 E (snd (derive_keys E secret)) (py_but_last 32 gd))
            \<longrightarrow> snd (validate_shopify_sso_token E secret now token) = Rejected SignatureMismatch)"
proof (intro conjI impI allI)
  assume m: "py_last 32 td \<noteq> hmac_sha256 E (snd (derive_keys E secret)) (py_but_last 32 td)"
  show "validate_shopify_sso_token E secret now token =
          ([CallB64Decode, CallSha256, CallHmac], Rejected SignatureMismatch)"
    by (rule validate_mismatch [OF assms m])
  then show "CallAesCbcDecrypt \<notin> set (fst (validate_shopify_sso_token E secret now token))"
    by simp
  show "spec_kind SignatureMismatch = BadSignature" by (simp add: spec_kind_def)
next
  fix good gd j i
  assume h: "urlsafe_b64decode good = Some gd
            \<and> py_last 32 gd = hmac_sha256 E (snd (derive_keys E secret)) (py_but_last 32 gd)
            \<and> j < length gd \<and> i < 8 \<and> td = flip_bit_at j i gd
            \<and> (j < length gd - 32 \<longrightarrow>
                  hmac_sha256 E (snd (derive_keys E secret)) (py_but_last 32 td)
                  \<noteq> hmac_sha256 E (snd (derive_keys E secret)) (py_but_last 32 gd))"
  let ?k = "snd (derive_keys E secret)"
  have sig: "py_last 32 gd = hmac_sha256 E ?k (py_but_last 32 gd)"
    using h by blast
  have "py_last 32 td \<noteq> hmac_sha256 E ?k (py_but_last 32 td)"
  proof (cases "j < length gd - 32")
    case True
    have td: "td = flip_bit_at j i gd" using h by blast
    have same: "py_last 32 td = py_last 32 gd"
      using True by (simp add: td py_last_def flip_bit_at_def)
    have "hmac_sha256 E ?k (py_but_last 32 td) \<noteq> hmac_sha256 E ?k (py_but_last 32 gd)"
      using True h by blast
    then show ?thesis unfolding same sig by simp
  next
    case False
    have td: "td = flip_bit_at j i gd" and j: "j < length gd" and i: "i < 8" using h by blast+
    have same: "py_but_last 32 td = py_but_last 32 gd"
      using False by (simp add: td py_but_last_def flip_take flip_len)
    have "py_last 32 td \<noteq> py_last 32 gd"
      using False j i flip_drop [of "length gd - 32" j gd i] by (simp add: td py_last_def flip_len)
    then show ?thesis unfolding same sig [symmetric] .
  qed
  then show "snd (validate_shopify_sso_token E secret now token) = Rejected SignatureMismatch"
    using validate_mismatch [OF assms] by simp
qed

theorem tampered_witness:
  "validate_shopify_sso_token demo_env ''test-secret'' 43200000000 demo_token_sig_flipped =
     ([CallB64Decode, CallSha256, CallHmac], Rejected SignatureMismatch)
   \<and> snd (validate_shopify_sso_token demo_env ''test-secret'' 43200000000 demo_token_ct_flipped) =
       Rejected SignatureMismatch"
proof -
  let ?v = "validate_shopify_sso_token demo_env ''test-secret'' 43200000000"
  let ?k = "snd (derive_keys demo_env ''test-secret'')"
  have s: "''test-secret'' \<noteq> []" by simp
  have gd: "urlsafe_b64decode demo_token = Some demo_bytes" by code_simp
  have good: "py_last 32 demo_bytes = hmac_sha256 demo_env ?k (py_but_last 32 demo_bytes)"
    by code_simp
  have d1: "urlsafe_b64decode demo_token_sig_flipped = Some (flip_bit_at 63 0 demo_bytes)"
    by code_simp
  have d2: "urlsafe_b64decode demo_token_ct_flipped = Some (flip_bit_at 17 0 demo_bytes)"
    by code_simp
  have m1: "py_last 32 (flip_bit_at 63 0 demo_bytes)
            \<noteq> hmac_sha256 demo_env ?k (py_but_last 32 (flip_bit_at 63 0 demo_bytes))"
    by code_simp
  have len: "17 < length demo_bytes" "63 < length demo_bytes" by code_simp+
  have m2: "17 < length demo_bytes - 32 \<longrightarrow>
            hmac_sha256 demo_env ?k (py_but_last 32 (flip_bit_at 17 0 demo_bytes))
            \<noteq> hmac_sha256 demo_env ?k (py_but_last 32 demo_bytes)"
    by code_simp
  have a: "?v demo_token_sig_flipped = ([CallB64Decode, CallSha256, CallHmac], Rejected SignatureMismatch)"
    using tampered_token_is_rejected_before_decryption [OF s d1, of demo_env 43200000000] m1
    by blast
  have b: "snd (?v demo_token_ct_flipped) = Rejected SignatureMismatch"
    using tampered_token_is_rejected_before_decryption [OF s d2, of demo_env 43200000000]
      good gd len m2 by (metis (no_types) zero_less_numeral)
  show ?thesis using a b by simp
qed

subsection \<open>Key derivation\<close>

text \<open>
  Claim C3, as stated, types the signing key as 32 bytes. The key is the slice \<^verbatim>\<open>[16:32]\<close>
  of a 32-byte digest, which has 16 bytes: with a digest of 32 bytes the signing key of
  the secret \<^verbatim>\<open>test-secret\<close> does not have length 32.
\<close>

theorem signing_key_length_counterexample:
  "length (sha256 demo_env (str_encode ''test-secret'')) = 32
   \<and> length (snd (derive_keys demo_env ''test-secret'')) \<noteq> 32"
  by code_simp

text \<open>
  Claim C3, amended. Key derivation takes one digest of the secret; when the digest has
  32 bytes (as SHA-256 has), the encryption key is its first half and the signing key its
  second half, each 16 bytes long, so the result is typed \<open>(bytes[16], bytes[16])\<close> and
  the two keys are different slices whose concatenation is the digest. An empty secret
  makes the validator raise before any key is derived.
\<close>

theorem derive_keys_halves:
  assumes "length (sha256 E (str_encode secret)) = 32"
  shows "derive_keys E secret =
           (take 16 (sha256 E (str_encode secret)), drop 16 (sha256 E (str_encode secret)))
       \<and> length (fst (derive_keys E secret)) = 16
       \<and> length (snd (derive_keys E secret)) = 16
       \<and> fst (derive_keys E secret) @ snd (derive_keys E secret) = sha256 E (str_encode secret)
       \<and> validate_shopify_sso_token E [] now token = ([], Raised)"
  using assms by (simp add: derive_keys_def Let_def validate_shopify_sso_token_def)

theorem derive_keys_halves_witness:
  "length (sha256 demo_env (str_encode ''test-secret'')) = 32
   \<and> derive_keys demo_env ''test-secret'' = (map of_nat [0..<16], map of_nat [16..<32])
   \<and> length (snd (derive_keys demo_env ''test-secret'')) = 16"
proof -
  have h: "length (sha256 demo_env (str_encode ''test-secret'')) = 32" by code_simp
  have e: "(take 16 (sha256 demo_env (str_encode ''test-secret'')),
            drop 16 (sha256 demo_env (str_encode ''test-secret'')))
           = (map of_nat [0..<16], map of_nat [16..<32])" by code_simp
  show ?thesis using derive_keys_halves [OF h, of 0 "[]"] h e by simp
qed

subsection \<open>Freshness\<close>

text \<open>What lines 73 to 84 compute on a parsed payload; no token gets there.\<close>

lemma check_created_at_str:
  assumes "py_or (dict_get kv ''createdAt'') (dict_get kv ''created_at'') = JStr s" and "s \<noteq> []"
    and "fromisoformat E (replace_Z s) = Some c"
  shows "check_created_at E now (JObj kv) =
           ([CallFromIsoformat],
            if now - wall c > 15 * 60 * 1000000 then Inl TooOld else Inr (JObj kv))"
  using assms
  by (cases "tzinfo c") (simp_all add: check_created_at_def truthy_def dt_sub_def TOKEN_EXPIRY_MINUTES_def)

lemma check_created_at_missing:
  assumes "\<not> truthy (dict_get kv ''createdAt'')" and "\<not> truthy (dict_get kv ''created_at'')"
  shows "check_created_at E now (JObj kv) = ([], Inl NoCreatedAt)"
  using assms by (simp add: check_created_at_def py_or_def)

text \<open>
  Claim C2. The validator is written to accept a token whose timestamp lies 14:59 before
  now and to reject as too old one whose timestamp lies 15:01 before now (lemma
  \<open>check_created_at_str\<close> is that comparison). It never reaches the comparison: line 64
  looks up \<^verbatim>\<open>decryptor.final\<close>, which the cipher context does not have (the method is
  \<^verbatim>\<open>finalize\<close>), and the handler returns \<^verbatim>\<open>None\<close>. The token the encoder makes for the
  assertion \<open>demo_assertion\<close>, with its padding kept, is rejected at the decryption step
  both 14:59 and 15:01 after the timestamp; neither outcome has the kind \<open>Expired\<close>.
\<close>

theorem fresh_token_is_rejected_at_decryption:
  "encode demo_env demo_lib ''test-secret'' (replicate 16 0) demo_assertion @ ''=='' = demo_token
   \<and> validate_shopify_sso_token demo_env ''test-secret'' (43200000000 + 899000000) demo_token
       = ([CallB64Decode, CallSha256, CallHmac, CallAesCbcDecrypt], Rejected CipherError)
   \<and> validate_shopify_sso_token demo_env ''test-secret'' (43200000000 + 901000000) demo_token
       = ([CallB64Decode, CallSha256, CallHmac, CallAesCbcDecrypt], Rejected CipherError)
   \<and> py_value (snd (validate_shopify_sso_token demo_env ''test-secret''
                      (43200000000 + 899000000) demo_token)) = None
   \<and> spec_kind CipherError \<noteq> Expired"
  by code_simp

text \<open>
  Claim C10. A token whose timestamp is naive is meant to be compared against a naive
  ``now'' and accepted within the window. It is rejected like every other token whose
  signature verifies, at line 64: the token the encoder makes for \<open>demo_naive\<close>, validated
  one minute after its timestamp, yields \<^verbatim>\<open>None\<close>.
\<close>

theorem naive_token_is_rejected_at_decryption:
  "encode demo_env demo_lib ''test-secret'' (replicate 16 0) demo_naive @ ''=='' = demo_token_naive
   \<and> validate_shopify_sso_token demo_env ''test-secret'' (43200000000 + 60000000) demo_token_naive
       = ([CallB64Decode, CallSha256, CallHmac, CallAesCbcDecrypt], Rejected CipherError)
   \<and> py_value (snd (validate_shopify_sso_token demo_env ''test-secret''
                      (43200000000 + 60000000) demo_token_naive)) = None"
  by code_simp

subsection \<open>Required fields\<close>


subsection \<open>Short tokens\<close>

text \<open>
  Claim C9, as stated, gives the kind \<open>Malformed\<close> to every token that decodes to fewer
  than 49 bytes. There is no length check: the three-byte token \<^verbatim>\<open>AAAA\<close> is rejected at
  the signature comparison, whose kind is \<open>BadSignature\<close>.
\<close>

theorem short_token_counterexample:
  "urlsafe_b64decode ''AAAA'' = Some [0, 0, 0]
   \<and> snd (validate_shopify_sso_token demo_env ''test-secret'' 43200000000 ''AAAA'')
       = Rejected SignatureMismatch
   \<and> spec_kind SignatureMismatch \<noteq> Malformed"
  by code_simp

text \<open>
  Claim C9, amended. Every token that decodes to fewer than 49 bytes is rejected (the
  caller gets \<^verbatim>\<open>None\<close>), though not by a length check: with the kind \<open>BadSignature\<close>, at the
  signature comparison, when the trailing bytes are not the MAC of the rest, which is
  always so below 32 bytes; and with the kind \<open>Malformed\<close>, at the decryption step of lines
  60 to 64, otherwise. The MAC is assumed to have 32 bytes.
\<close>

theorem short_token_is_rejected:
  assumes "secret \<noteq> []" and "urlsafe_b64decode token = Some td" and "length td < 49"
    and "\<forall>k m. length (hmac_sha256 E k m) = 32"
  shows "validate_shopify_sso_token E secret now token =
           (if py_last 32 td \<noteq> hmac_sha256 E (snd (derive_keys E secret)) (py_but_last 32 td)
            then ([CallB64Decode, CallSha256, CallHmac], Rejected SignatureMismatch)
            else ([CallB64Decode, CallSha256, CallHmac, CallAesCbcDecrypt], Rejected CipherError))
       \<and> spec_kind SignatureMismatch = BadSignature
       \<and> spec_kind CipherError = Malformed
       \<and> py_value (snd (validate_shopify_sso_token E secret now token)) = None
       \<and> (length td < 32 \<longrightarrow>
            snd (validate_shopify_sso_token E secret now token) = Rejected SignatureMismatch)"
proof -
  let ?k = "snd (derive_keys E secret)"
  have v: "validate_shopify_sso_token E secret now token =
           (if py_last 32 td \<noteq> hmac_sha256 E ?k (py_but_last 32 td)
            then ([CallB64Decode, CallSha256, CallHmac], Rejected SignatureMismatch)
            else ([CallB64Decode, CallSha256, CallHmac, CallAesCbcDecrypt], Rejected CipherError))"
    using validate_outcome [OF assms(1), of E now token] assms(2) by simp
  have short: "py_last 32 td \<noteq> hmac_sha256 E ?k (py_but_last 32 td)" if "length td < 32"
  proof -
    have "length (py_last 32 td) < 32" using that by (simp add: py_last_def)
    then show ?thesis using assms(4) by (metis less_irrefl)
  qed
  show ?thesis
    using v short by (auto simp add: spec_kind_def py_value_def)
qed

theorem short_token_witness:
  "validate_shopify_sso_token demo_env ''test-secret'' 43200000000 ''AAAA''
     = ([CallB64Decode, CallSha256, CallHmac], Rejected SignatureMismatch)
   \<and> validate_shopify_sso_token demo_env ''test-secret'' 43200000000
        ''AAAAAAAAAAAAAAAAAAAAAAAAAAAAAAAAAAAAAAAAAAAAAAAAAAAAAAAAAAAAAAAA''
     = ([CallB64Decode, CallSha256, CallHmac, CallAesCbcDecrypt], Rejected CipherError)"
proof -
  let ?k = "snd (derive_keys demo_env ''test-secret'')"
  have s: "''test-secret'' \<noteq> []" by simp
  have d1: "urlsafe_b64decode ''AAAA'' = Some [0, 0, 0]" by code_simp
  have d2: "urlsafe_b64decode ''AAAAAAAAAAAAAAAAAAAAAAAAAAAAAAAAAAAAAAAAAAAAAAAAAAAAAAAAAAAAAAAA''
              = Some (replicate 48 0)" by code_simp
  have l1: "length [0, 0, 0 :: byte] < 49" "length [0, 0, 0 :: byte] < 32" by simp_all
  have l2: "length (replicate 48 (0 :: byte)) < 49" by simp
  have h: "\<forall>k m. length (hmac_sha256 demo_env k m) = 32" by (simp add: demo_env_def)
  have m1: "py_last 32 [0, 0, 0 :: byte] \<noteq> hmac_sha256 demo_env ?k (py_but_last 32 [0, 0, 0])"
    by code_simp
  have m2: "py_last 32 (replicate 48 (0 :: byte))
              = hmac_sha256 demo_env ?k (py_but_last 32 (replicate 48 0))"
    by code_simp
  have a: "validate_shopify_sso_token demo_env ''test-secret'' 43200000000 ''AAAA''
     = ([CallB64Decode, CallSha256, CallHmac], Rejected SignatureMismatch)"
    using short_token_is_rejected [OF s d1 l1(1) h, of 43200000000] m1 by presburger
  have b: "validate_shopify_sso_token demo_env ''test-secret'' 43200000000
        ''AAAAAAAAAAAAAAAAAAAAAAAAAAAAAAAAAAAAAAAAAAAAAAAAAAAAAAAAAAAAAAAA''
     = ([CallB64Decode, CallSha256, CallHmac, CallAesCbcDecrypt], Rejected CipherError)"
    using short_token_is_rejected [OF s d2 l2 h, of 43200000000] m2 by presburger
  show ?thesis using a b by simp
qed

subsection \<open>Field names\<close>

text \<open>What lines 40 to 45 of the callback compute on a decoded payload: the spelling does
  not matter for a truthy value, but \<^verbatim>\<open>or\<close> drops a falsy one, so an empty first name is the
  empty string under \<^verbatim>\<open>first_name\<close> and \<^verbatim>\<open>None\<close> under \<^verbatim>\<open>firstName\<close>.\<close>

lemma truthy_JNull: "\<not> truthy JNull"
  by (simp add: truthy_def)

lemma spelling_irrelevant_for_truthy_first_name:
  assumes "truthy v" and "map_of kv ''firstName'' = None" and "map_of kv ''first_name'' = None"
  shows "callback_user_args (JObj ((''first_name'', v) # kv))
       = callback_user_args (JObj ((''firstName'', v) # kv))"
  using assms
  by (cases "map_of kv ''email''")
     (simp_all add: callback_user_args_def dict_get_def py_or_def truthy_JNull)

lemma empty_first_name_depends_on_spelling:
  "callback_user_args
     (JObj [(''email'', JStr ''a@b.com''), (''created_at'', JStr ''2025-01-01T12:00:00Z''),
            (''first_name'', JStr '''')])
     = Inr (JStr ''a@b.com'', JStr '''', JNull, JNull)
   \<and> callback_user_args
     (JObj [(''email'', JStr ''a@b.com''), (''created_at'', JStr ''2025-01-01T12:00:00Z''),
            (''firstName'', JStr '''')])
     = Inr (JStr ''a@b.com'', JNull, JNull, JNull)"
  by (simp add: callback_user_args_def dict_get_def py_or_def truthy_def)

text \<open>
  Claim C8. Two payloads that differ only in the spelling of the first-name key are meant
  to give the same arguments to \<^verbatim>\<open>create_or_update_user\<close>. Neither gets that far: the tokens
  the encoder makes for \<open>demo_long\<close> (\<^verbatim>\<open>first_name\<close>) and \<open>demo_long_camel\<close> (\<^verbatim>\<open>firstName\<close>) both
  decode as base64, carry a verifying signature, and are rejected at line 64, so that the
  callback redirects both to \<^verbatim>\<open>error=invalid_token\<close> and no normalised assertion exists.
\<close>

theorem both_spellings_end_in_invalid_token:
  "validate_shopify_sso_token demo_env ''test-secret'' 43200000000
     (encode demo_env demo_lib ''test-secret'' (replicate 16 0) demo_long)
     = ([CallB64Decode, CallSha256, CallHmac, CallAesCbcDecrypt], Rejected CipherError)
   \<and> validate_shopify_sso_token demo_env ''test-secret'' 43200000000
     (encode demo_env demo_lib ''test-secret'' (replicate 16 0) demo_long_camel)
     = ([CallB64Decode, CallSha256, CallHmac, CallAesCbcDecrypt], Rejected CipherError)
   \<and> shopify_callback demo_env ''test-secret'' 43200000000
     (encode demo_env demo_lib ''test-secret'' (replicate 16 0) demo_long)
     = RedirectLogin ''/login?error=invalid_token''
   \<and> shopify_callback demo_env ''test-secret'' 43200000000
     (encode demo_env demo_lib ''test-secret'' (replicate 16 0) demo_long_camel)
     = RedirectLogin ''/login?error=invalid_token''"
  by code_simp

subsection \<open>Session lookup\<close>

text \<open>
  Claim C5, as stated, keeps a fault of the store apart from an invalid or expired
  credential. The handler \<^verbatim>\<open>except Exception\<close> returns \<^verbatim>\<open>None\<close> as the \<^verbatim>\<open>return None\<close> for an
  empty result does: with a store that is down and with a store that has no such session
  the caller gets the same value.
\<close>

theorem store_fault_counterexample:
  "get_user_from_session \<lparr>up = False, sessions = [], users = []\<rparr> 0 ''tok''
     = ([CallSelectSessions], AuthNone StoreException)
   \<and> get_user_from_session \<lparr>up = True, sessions = [], users = []\<rparr> 0 ''tok''
     = ([CallSelectSessions], AuthNone NoSession)
   \<and> auth_py_value (snd (get_user_from_session \<lparr>up = False, sessions = [], users = []\<rparr> 0 ''tok''))
     = auth_py_value (snd (get_user_from_session \<lparr>up = True, sessions = [], users = []\<rparr> 0 ''tok''))"
  by (simp add: get_user_from_session_def select_sessions_def auth_py_value_def)

text \<open>
  Claim C5, amended. The lookup fails in three places (among others): for an empty token,
  before any call to the store; when the store returns no session with that token and
  \<open>expires_at > now\<close>; and when the store raises, which is caught. The specification
  names the three \<open>Missing\<close>, \<open>InvalidOrExpired\<close> and \<open>StoreUnavailable\<close>, but the value
  returned is \<^verbatim>\<open>None\<close> in all of them, so a caller cannot tell them apart.
\<close>

theorem lookup_failures_all_return_none:
  "(session_token = [] \<longrightarrow> get_user_from_session d now session_token = ([], AuthNone EmptyToken))
   \<and> (session_token \<noteq> [] \<and> up d
        \<and> (\<forall>r \<in> set (sessions d). s_token r = session_token \<longrightarrow> s_expires_at r \<le> now) \<longrightarrow>
        get_user_from_session d now session_token = ([CallSelectSessions], AuthNone NoSession))
   \<and> (session_token \<noteq> [] \<and> \<not> up d \<longrightarrow>
        get_user_from_session d now session_token = ([CallSelectSessions], AuthNone StoreException))
   \<and> (\<forall>r. auth_py_value (AuthNone r) = None)
   \<and> spec_auth_kind EmptyToken = Missing
   \<and> spec_auth_kind NoSession = InvalidOrExpired
   \<and> spec_auth_kind StoreException = StoreUnavailable"
proof -
  have f: "(\<forall>r \<in> set (sessions d). s_token r = session_token \<longrightarrow> s_expires_at r \<le> now) \<Longrightarrow>
           filter (\<lambda>r. s_token r = session_token \<and> now < s_expires_at r) (sessions d) = []"
    by (auto simp add: filter_empty_conv)
  show ?thesis
    by (auto simp add: get_user_from_session_def select_sessions_def auth_py_value_def
        spec_auth_kind_def f)
qed

theorem lookup_failures_witness:
  "get_user_from_session \<lparr>up = True, sessions = [], users = []\<rparr> 5 [] = ([], AuthNone EmptyToken)
   \<and> get_user_from_session
        \<lparr>up = True,
         sessions = [\<lparr>s_token = ''tok'', s_user_id = ''u1'', s_expires_at = 4, s_created_at = 0\<rparr>],
         users = [(''u1'', JObj [(''id'', JStr ''u1'')])]\<rparr> 5 ''tok''
       = ([CallSelectSessions], AuthNone NoSession)
   \<and> get_user_from_session \<lparr>up = False, sessions = [], users = []\<rparr> 5 ''tok''
       = ([CallSelectSessions], AuthNone StoreException)
   \<and> auth_py_value (AuthNone StoreException) = None"
proof -
  let ?d = "\<lparr>up = True,
         sessions = [\<lparr>s_token = ''tok'', s_user_id = ''u1'', s_expires_at = 4, s_created_at = 0\<rparr>],
         users = [(''u1'', JObj [(''id'', JStr ''u1'')])]\<rparr>"
  have a: "get_user_from_session \<lparr>up = True, sessions = [], users = []\<rparr> 5 [] = ([], AuthNone EmptyToken)"
    using lookup_failures_all_return_none [of "[]" "\<lparr>up = True, sessions = [], users = []\<rparr>" 5]
    by simp
  have h: "''tok'' \<noteq> [] \<and> up ?d
        \<and> (\<forall>r \<in> set (sessions ?d). s_token r = ''tok'' \<longrightarrow> s_expires_at r \<le> 5)" by simp
  have b: "get_user_from_session ?d 5 ''tok'' = ([CallSelectSessions], AuthNone NoSession)"
    using lookup_failures_all_return_none [of "''tok''" ?d 5] h by blast
  have c: "get_user_from_session \<lparr>up = False, sessions = [], users = []\<rparr> 5 ''tok''
       = ([CallSelectSessions], AuthNone StoreException)"
    using lookup_failures_all_return_none [of "''tok''" "\<lparr>up = False, sessions = [], users = []\<rparr>" 5]
    by simp
  have e: "auth_py_value (AuthNone StoreException) = None"
    using lookup_failures_all_return_none [of "[]" "\<lparr>up = True, sessions = [], users = []\<rparr>" 5]
    by blast
  show ?thesis using a b c e by simp
qed

subsection \<open>Session deletion\<close>

text \<open>
  Claim C6, as stated, has the second of two deletions of an issued token return
  \<^verbatim>\<open>False\<close>, and the deletion of a token that was never issued too. \<^verbatim>\<open>delete_session\<close> returns
  \<^verbatim>\<open>True\<close> whenever the store call raises nothing: deleting the issued token \<^verbatim>\<open>tok\<close> gives
  \<^verbatim>\<open>True\<close>, and deleting it again, from a store that no longer has it, gives \<^verbatim>\<open>True\<close> again.
\<close>

theorem revoke_twice_counterexample:
  "create_user_session \<lparr>up = True, sessions = [], users = []\<rparr> 0 ''tok'' ''u1''
     = Some (''tok'', \<lparr>up = True,
          sessions = [\<lparr>s_token = ''tok'', s_user_id = ''u1'', s_expires_at = 604800000000,
                      s_created_at = 0\<rparr>], users = []\<rparr>)
   \<and> delete_session \<lparr>up = True,
          sessions = [\<lparr>s_token = ''tok'', s_user_id = ''u1'', s_expires_at = 604800000000,
                      s_created_at = 0\<rparr>], users = []\<rparr> ''tok''
       = (True, \<lparr>up = True, sessions = [], users = []\<rparr>)
   \<and> delete_session \<lparr>up = True, sessions = [], users = []\<rparr> ''tok''
       = (True, \<lparr>up = True, sessions = [], users = []\<rparr>)"
  by (simp add: create_user_session_def insert_session_def delete_session_def delete_sessions_def
      Let_def)

text \<open>
  Claim C6, amended. \<^verbatim>\<open>delete_session\<close> returns whether the store call succeeded, not
  whether a record existed: \<^verbatim>\<open>True\<close> when the store answers, after which no session has
  that token, and \<^verbatim>\<open>False\<close> when the store raises, the store being unchanged. It never
  raises, and a second call returns what the first returned.
\<close>

theorem delete_session_reports_store_success:
  "fst (delete_session d session_token) = up d
   \<and> (up d \<longrightarrow> (\<forall>r \<in> set (sessions (snd (delete_session d session_token))).
                   s_token r \<noteq> session_token))
   \<and> (\<not> up d \<longrightarrow> snd (delete_session d session_token) = d)
   \<and> delete_session (snd (delete_session d session_token)) session_token
       = (up d, snd (delete_session d session_token))"
  by (auto simp add: delete_session_def delete_sessions_def)

theorem delete_session_witness:
  "delete_session \<lparr>up = True,
          sessions = [\<lparr>s_token = ''tok'', s_user_id = ''u1'', s_expires_at = 604800000000,
                      s_created_at = 0\<rparr>], users = []\<rparr> ''tok''
     = (True, \<lparr>up = True, sessions = [], users = []\<rparr>)
   \<and> delete_session \<lparr>up = False,
          sessions = [\<lparr>s_token = ''tok'', s_user_id = ''u1'', s_expires_at = 604800000000,
                      s_created_at = 0\<rparr>], users = []\<rparr> ''tok''
     = (False, \<lparr>up = False,
          sessions = [\<lparr>s_token = ''tok'', s_user_id = ''u1'', s_expires_at = 604800000000,
                      s_created_at = 0\<rparr>], users = []\<rparr>)"
proof -
  let ?row = "\<lparr>s_token = ''tok'', s_user_id = ''u1'', s_expires_at = 604800000000, s_created_at = 0\<rparr>"
  let ?d1 = "\<lparr>up = True, sessions = [?row], users = []\<rparr>"
  let ?d2 = "\<lparr>up = False, sessions = [?row], users = []\<rparr>"
  have u1: "up ?d1" and u2: "\<not> up ?d2" by simp_all
  have s1: "snd (delete_session ?d1 ''tok'') = \<lparr>up = True, sessions = [], users = []\<rparr>"
    by (simp add: delete_session_def delete_sessions_def)
  have a: "fst (delete_session ?d1 ''tok'') = True"
    using delete_session_reports_store_success [of ?d1 "''tok''"] u1 by simp
  have b: "fst (delete_session ?d2 ''tok'') = False \<and> snd (delete_session ?d2 ''tok'') = ?d2"
    using delete_session_reports_store_success [of ?d2 "''tok''"] u2 by simp
  show ?thesis using a b s1 by (simp add: prod_eq_iff)
qed

subsection \<open>The encoder and the validator\<close>




















end
